theory Spec2Isabelle
  imports Main
begin

section \<open>hipSOLVER: the public header\<close>

text \<open>
  The repository's header \<^verbatim>\<open>hipsolver.h\<close> declares the status and mode
  enumerations, the two complex value types with their compile-time layout
  assertions, and the prototypes of the routine family. The enumerations are
  embedded as datatypes together with the integer each enumerator is given in
  the header; the complex types as declarations (fields, access, constructors)
  for each of the three preprocessor configurations the header distinguishes.
\<close>

subsection \<open>Status codes (\<^verbatim>\<open>hipsolverStatus_t\<close>)\<close>

datatype hipsolverStatus_t =
    HIPSOLVER_STATUS_SUCCESS
  | HIPSOLVER_STATUS_NOT_INITIALIZED
  | HIPSOLVER_STATUS_ALLOC_FAILED
  | HIPSOLVER_STATUS_INVALID_VALUE
  | HIPSOLVER_STATUS_MAPPING_ERROR
  | HIPSOLVER_STATUS_EXECUTION_FAILED
  | HIPSOLVER_STATUS_INTERNAL_ERROR
  | HIPSOLVER_STATUS_NOT_SUPPORTED
  | HIPSOLVER_STATUS_ARCH_MISMATCH
  | HIPSOLVER_STATUS_HANDLE_IS_NULLPTR
  | HIPSOLVER_STATUS_INVALID_ENUM
  | HIPSOLVER_STATUS_UNKNOWN

text \<open>The integer the header assigns to each enumerator.\<close>

fun hipsolverStatus_value :: "hipsolverStatus_t \<Rightarrow> int" where
  "hipsolverStatus_value HIPSOLVER_STATUS_SUCCESS = 0"
| "hipsolverStatus_value HIPSOLVER_STATUS_NOT_INITIALIZED = 1"
| "hipsolverStatus_value HIPSOLVER_STATUS_ALLOC_FAILED = 2"
| "hipsolverStatus_value HIPSOLVER_STATUS_INVALID_VALUE = 3"
| "hipsolverStatus_value HIPSOLVER_STATUS_MAPPING_ERROR = 4"
| "hipsolverStatus_value HIPSOLVER_STATUS_EXECUTION_FAILED = 5"
| "hipsolverStatus_value HIPSOLVER_STATUS_INTERNAL_ERROR = 6"
| "hipsolverStatus_value HIPSOLVER_STATUS_NOT_SUPPORTED = 7"
| "hipsolverStatus_value HIPSOLVER_STATUS_ARCH_MISMATCH = 8"
| "hipsolverStatus_value HIPSOLVER_STATUS_HANDLE_IS_NULLPTR = 9"
| "hipsolverStatus_value HIPSOLVER_STATUS_INVALID_ENUM = 10"
| "hipsolverStatus_value HIPSOLVER_STATUS_UNKNOWN = 11"

text \<open>The enumerators in declaration order.\<close>

definition hipsolverStatus_all :: "hipsolverStatus_t list" where
  "hipsolverStatus_all =
     [HIPSOLVER_STATUS_SUCCESS, HIPSOLVER_STATUS_NOT_INITIALIZED,
      HIPSOLVER_STATUS_ALLOC_FAILED, HIPSOLVER_STATUS_INVALID_VALUE,
      HIPSOLVER_STATUS_MAPPING_ERROR, HIPSOLVER_STATUS_EXECUTION_FAILED,
      HIPSOLVER_STATUS_INTERNAL_ERROR, HIPSOLVER_STATUS_NOT_SUPPORTED,
      HIPSOLVER_STATUS_ARCH_MISMATCH, HIPSOLVER_STATUS_HANDLE_IS_NULLPTR,
      HIPSOLVER_STATUS_INVALID_ENUM, HIPSOLVER_STATUS_UNKNOWN]"

subsection \<open>Mode enumerations\<close>

datatype hipsolverOperation_t = HIPSOLVER_OP_N | HIPSOLVER_OP_T | HIPSOLVER_OP_C

datatype hipsolverFillMode_t = HIPSOLVER_FILL_MODE_UPPER | HIPSOLVER_FILL_MODE_LOWER

datatype hipsolverSideMode_t = HIPSOLVER_SIDE_LEFT | HIPSOLVER_SIDE_RIGHT

datatype hipsolverEigMode_t = HIPSOLVER_EIG_MODE_NOVECTOR | HIPSOLVER_EIG_MODE_VECTOR

datatype hipsolverEigType_t = HIPSOLVER_EIG_TYPE_1 | HIPSOLVER_EIG_TYPE_2 | HIPSOLVER_EIG_TYPE_3

fun hipsolverOperation_value :: "hipsolverOperation_t \<Rightarrow> int" where
  "hipsolverOperation_value HIPSOLVER_OP_N = 111"
| "hipsolverOperation_value HIPSOLVER_OP_T = 112"
| "hipsolverOperation_value HIPSOLVER_OP_C = 113"

fun hipsolverFillMode_value :: "hipsolverFillMode_t \<Rightarrow> int" where
  "hipsolverFillMode_value HIPSOLVER_FILL_MODE_UPPER = 121"
| "hipsolverFillMode_value HIPSOLVER_FILL_MODE_LOWER = 122"

fun hipsolverSideMode_value :: "hipsolverSideMode_t \<Rightarrow> int" where
  "hipsolverSideMode_value HIPSOLVER_SIDE_LEFT = 141"
| "hipsolverSideMode_value HIPSOLVER_SIDE_RIGHT = 142"

fun hipsolverEigMode_value :: "hipsolverEigMode_t \<Rightarrow> int" where
  "hipsolverEigMode_value HIPSOLVER_EIG_MODE_NOVECTOR = 201"
| "hipsolverEigMode_value HIPSOLVER_EIG_MODE_VECTOR = 202"

fun hipsolverEigType_value :: "hipsolverEigType_t \<Rightarrow> int" where
  "hipsolverEigType_value HIPSOLVER_EIG_TYPE_1 = 211"
| "hipsolverEigType_value HIPSOLVER_EIG_TYPE_2 = 212"
| "hipsolverEigType_value HIPSOLVER_EIG_TYPE_3 = 213"

subsection \<open>Preprocessor configuration and target ABI\<close>

text \<open>
  The header tests \<^verbatim>\<open>#ifndef __cplusplus\<close> and
  \<^verbatim>\<open>#if __cplusplus >= 201103L\<close>. The macro is \<open>None\<close> in a C
  translation unit and \<open>Some v\<close> in a C++ one; in \<^verbatim>\<open>#if\<close> an undefined
  macro reads as 0.
\<close>

definition cplusplus_value :: "nat option \<Rightarrow> nat" where
  "cplusplus_value cpp = (case cpp of None \<Rightarrow> 0 | Some v \<Rightarrow> v)"

datatype scalar_t = Float | Double

text \<open>
  \<^verbatim>\<open>sizeof\<close> and the alignment of the two scalar types are fixed by the
  target, not by the header, so they are parameters.
\<close>

record abi =
  sizeof_float :: nat
  alignof_float :: nat
  sizeof_double :: nat
  alignof_double :: nat

fun sizeof_scalar :: "abi \<Rightarrow> scalar_t \<Rightarrow> nat" where
  "sizeof_scalar a Float = sizeof_float a"
| "sizeof_scalar a Double = sizeof_double a"

fun alignof_scalar :: "abi \<Rightarrow> scalar_t \<Rightarrow> nat" where
  "alignof_scalar a Float = alignof_float a"
| "alignof_scalar a Double = alignof_double a"

text \<open>
  What C and C++ guarantee of every object type: the alignment is positive and
  divides the size (an array has no gaps between its elements).
\<close>

definition abi_ok :: "abi \<Rightarrow> bool" where
  "abi_ok a =
     (0 < alignof_float a \<and> 0 < sizeof_float a \<and> alignof_float a dvd sizeof_float a \<and>
      0 < alignof_double a \<and> 0 < sizeof_double a \<and> alignof_double a dvd sizeof_double a)"

subsection \<open>The complex value types as declared\<close>

datatype access = Public | Private

datatype ctor_body = Defaulted | UserProvided

record data_member =
  m_name :: string
  m_type :: scalar_t
  m_access :: access

text \<open>
  A constructor: its parameter types, how many trailing parameters have a default
  argument, and whether it is \<^verbatim>\<open>= default\<close> or has a body.
\<close>

record ctor =
  c_params :: "scalar_t list"
  c_defaults :: nat
  c_body :: ctor_body

record member_fn =
  f_name :: string
  f_arity :: nat
  f_virtual :: bool

record class_decl =
  members :: "data_member list"
  ctors :: "ctor list"
  member_fns :: "member_fn list"

text \<open>
  The body shared by \<^verbatim>\<open>struct hipsolverComplex\<close> (scalar \<^verbatim>\<open>float\<close>)
  and \<^verbatim>\<open>struct hipsolverDoubleComplex\<close> (scalar \<^verbatim>\<open>double\<close>), which
  differ in the scalar type only. In C the struct is \<^verbatim>\<open>T x, y;\<close>. In C++ the
  two members are private and the public part declares the default constructor
  (\<^verbatim>\<open>= default\<close> from C++11 on, \<^verbatim>\<open>{}\<close> before), the constructor
  \<^verbatim>\<open>(T r, T i = 0)\<close>, and the accessors \<^verbatim>\<open>real\<close> and \<^verbatim>\<open>imag\<close>
  in a reading and a writing overload each.
\<close>

definition complex_struct :: "scalar_t \<Rightarrow> nat option \<Rightarrow> class_decl" where
  "complex_struct t cpp =
     (case cpp of
        None \<Rightarrow>
          \<lparr>members = [\<lparr>m_name = ''x'', m_type = t, m_access = Public\<rparr>,
                      \<lparr>m_name = ''y'', m_type = t, m_access = Public\<rparr>],
           ctors = [],
           member_fns = []\<rparr>
      | Some v \<Rightarrow>
          \<lparr>members = [\<lparr>m_name = ''x'', m_type = t, m_access = Private\<rparr>,
                      \<lparr>m_name = ''y'', m_type = t, m_access = Private\<rparr>],
           ctors = [\<lparr>c_params = [], c_defaults = 0,
                      c_body = (if 201103 \<le> v then Defaulted else UserProvided)\<rparr>,
                    \<lparr>c_params = [t, t], c_defaults = 1, c_body = UserProvided\<rparr>],
           member_fns = [\<lparr>f_name = ''real'', f_arity = 0, f_virtual = False\<rparr>,
                         \<lparr>f_name = ''imag'', f_arity = 0, f_virtual = False\<rparr>,
                         \<lparr>f_name = ''real'', f_arity = 1, f_virtual = False\<rparr>,
                         \<lparr>f_name = ''imag'', f_arity = 1, f_virtual = False\<rparr>]\<rparr>)"

definition hipsolverComplex_decl :: "nat option \<Rightarrow> class_decl" where
  "hipsolverComplex_decl cpp = complex_struct Float cpp"

definition hipsolverDoubleComplex_decl :: "nat option \<Rightarrow> class_decl" where
  "hipsolverDoubleComplex_decl cpp = complex_struct Double cpp"

text \<open>
  The values of the type and the C++ member functions: the constructor
  \<^verbatim>\<open>(T r, T i = 0)\<close> stores its arguments in \<open>x\<close> and \<open>y\<close>,
  \<^verbatim>\<open>real()\<close> reads \<open>x\<close> and \<^verbatim>\<open>imag()\<close> reads \<open>y\<close>, and
  \<^verbatim>\<open>real(r)\<close> and \<^verbatim>\<open>imag(i)\<close> overwrite them. The member functions
  only move scalars, so the scalar type is a type parameter. The selectors are
  named \<open>mem_x\<close> and \<open>mem_y\<close>, since \<open>x\<close> and \<open>y\<close> would take the names
  of variables; the overloads of \<^verbatim>\<open>real\<close> and \<^verbatim>\<open>imag\<close> get the
  suffixes \<open>_get\<close> and \<open>_set\<close>, and the constructor called with one argument
  is \<open>complex_ctor1\<close>.
\<close>

datatype 'a complex_val = Complex_val (mem_x: 'a) (mem_y: 'a)

definition complex_ctor :: "'a \<Rightarrow> 'a \<Rightarrow> 'a complex_val" where
  "complex_ctor r i = Complex_val r i"

definition complex_ctor1 :: "'a::zero \<Rightarrow> 'a complex_val" where
  "complex_ctor1 r = complex_ctor r 0"

definition real_get :: "'a complex_val \<Rightarrow> 'a" where
  "real_get c = mem_x c"

definition imag_get :: "'a complex_val \<Rightarrow> 'a" where
  "imag_get c = mem_y c"

definition real_set :: "'a complex_val \<Rightarrow> 'a \<Rightarrow> 'a complex_val" where
  "real_set c r = Complex_val r (mem_y c)"

definition imag_set :: "'a complex_val \<Rightarrow> 'a \<Rightarrow> 'a complex_val" where
  "imag_set c i = Complex_val (mem_x c) i"

subsection \<open>Layout of a struct of scalars\<close>

text \<open>
  The layout rule of the C ABIs for a struct: every member goes to the next
  multiple of its alignment, in declaration order, and the size of the struct is
  the end of the last member rounded up to the largest member alignment.
\<close>

definition align_up :: "nat \<Rightarrow> nat \<Rightarrow> nat" where
  "align_up a n = ((n + a - 1) div a) * a"

fun place_members :: "abi \<Rightarrow> nat \<Rightarrow> data_member list \<Rightarrow> nat list \<times> nat" where
  "place_members a cur [] = ([], cur)"
| "place_members a cur (m # ms) =
     (let off = align_up (alignof_scalar a (m_type m)) cur;
          rest = place_members a (off + sizeof_scalar a (m_type m)) ms
      in (off # fst rest, snd rest))"

definition member_offsets :: "abi \<Rightarrow> class_decl \<Rightarrow> nat list" where
  "member_offsets a d = fst (place_members a 0 (members d))"

definition alignof_struct :: "abi \<Rightarrow> class_decl \<Rightarrow> nat" where
  "alignof_struct a d = fold max (map (\<lambda>m. alignof_scalar a (m_type m)) (members d)) 1"

definition sizeof_struct :: "abi \<Rightarrow> class_decl \<Rightarrow> nat" where
  "sizeof_struct a d = align_up (alignof_struct a d) (snd (place_members a 0 (members d)))"

definition padding_bytes :: "abi \<Rightarrow> class_decl \<Rightarrow> nat" where
  "padding_bytes a d =
     sizeof_struct a d - sum_list (map (\<lambda>m. sizeof_scalar a (m_type m)) (members d))"

subsection \<open>The type properties the header asserts\<close>

text \<open>
  \<^verbatim>\<open>std::is_standard_layout\<close> for a class without base classes and with
  members of scalar type: no virtual function, and the same access control for
  all data members.
\<close>

definition is_standard_layout :: "class_decl \<Rightarrow> bool" where
  "is_standard_layout d =
     (list_all (\<lambda>f. \<not> f_virtual f) (member_fns d) \<and>
      (case members d of
         [] \<Rightarrow> True
       | m # ms \<Rightarrow> list_all (\<lambda>m'. m_access m' = m_access m) ms))"

text \<open>
  A default constructor is one that can be called without arguments. The class
  has a trivial default constructor when it declares no constructor at all (the
  implicit one is trivial) or declares a default constructor and none of its
  default constructors is user-provided.
\<close>

definition is_default_ctor :: "ctor \<Rightarrow> bool" where
  "is_default_ctor c = (length (c_params c) \<le> c_defaults c)"

definition has_trivial_default_ctor :: "class_decl \<Rightarrow> bool" where
  "has_trivial_default_ctor d =
     (ctors d = [] \<or>
      (list_ex is_default_ctor (ctors d) \<and>
       list_all (\<lambda>c. c_body c = Defaulted) (filter is_default_ctor (ctors d))))"

text \<open>
  \<^verbatim>\<open>std::is_trivial\<close>: a trivial default constructor and trivially copyable.
  The declarations have no copy or move constructor, assignment operator or
  destructor of their own and scalar members only, so trivially copyable asks no
  more than the absence of virtual functions.
\<close>

definition is_trivial :: "class_decl \<Rightarrow> bool" where
  "is_trivial d =
     (has_trivial_default_ctor d \<and> list_all (\<lambda>f. \<not> f_virtual f) (member_fns d))"

text \<open>
  The five \<^verbatim>\<open>static_assert\<close>s of the header, compiled under
  \<^verbatim>\<open>#if __cplusplus >= 201103L\<close> only: the translation unit is accepted
  when they all hold.
\<close>

definition static_asserts :: "abi \<Rightarrow> nat option \<Rightarrow> bool" where
  "static_asserts a cpp =
     (if 201103 \<le> cplusplus_value cpp then
        is_standard_layout (hipsolverComplex_decl cpp) \<and>
        is_standard_layout (hipsolverDoubleComplex_decl cpp) \<and>
        is_trivial (hipsolverComplex_decl cpp) \<and>
        is_trivial (hipsolverDoubleComplex_decl cpp) \<and>
        (sizeof_struct a (hipsolverComplex_decl cpp) = sizeof_float a * 2 \<and>
         sizeof_struct a (hipsolverDoubleComplex_decl cpp) = sizeof_double a * 2 \<and>
         sizeof_struct a (hipsolverDoubleComplex_decl cpp) =
           sizeof_struct a (hipsolverComplex_decl cpp) * 2)
      else True)"

subsection \<open>The routine family\<close>

text \<open>
  The header declares every routine four times, once per precision (prefixes
  \<^verbatim>\<open>S\<close>, \<^verbatim>\<open>D\<close>, \<^verbatim>\<open>C\<close>, \<^verbatim>\<open>Z\<close>), each as a pair
  \<^verbatim>\<open>R_bufferSize\<close> and \<^verbatim>\<open>R\<close>. The real and the complex name of a
  routine (\<^verbatim>\<open>orgbr\<close> and \<^verbatim>\<open>ungbr\<close>, \<^verbatim>\<open>syevd\<close> and
  \<^verbatim>\<open>heevd\<close>, ...) have the same parameters and share a constructor.
\<close>

datatype routine =
    Orgbr | Orgqr | Orgtr | Ormqr | Ormtr | Gebrd | Geqrf | Gesvd | Getrf | Getrs
  | Potrf | PotrfBatched | Syevd | Sygvd | Sytrd

datatype precision = Prec_S | Prec_D | Prec_C | Prec_Z

datatype enum_kind = SideMode | FillMode | Operation | EigMode | EigType

text \<open>
  The enum-typed parameters of each \<^verbatim>\<open>R_bufferSize\<close> prototype, in the order
  of the prototype. (\<^verbatim>\<open>gesvd\<close> takes its two job arguments as
  \<^verbatim>\<open>signed char\<close>, not as an enumeration.)
\<close>

fun enum_params :: "routine \<Rightarrow> enum_kind list" where
  "enum_params Orgbr = [SideMode]"
| "enum_params Orgqr = []"
| "enum_params Orgtr = [FillMode]"
| "enum_params Ormqr = [SideMode, Operation]"
| "enum_params Ormtr = [SideMode, FillMode, Operation]"
| "enum_params Gebrd = []"
| "enum_params Geqrf = []"
| "enum_params Gesvd = []"
| "enum_params Getrf = []"
| "enum_params Getrs = [Operation]"
| "enum_params Potrf = [FillMode]"
| "enum_params PotrfBatched = [FillMode]"
| "enum_params Syevd = [EigMode, FillMode]"
| "enum_params Sygvd = [EigType, EigMode, FillMode]"
| "enum_params Sytrd = [FillMode]"

text \<open>The integers that are enumerators of each enumeration.\<close>

fun enum_values :: "enum_kind \<Rightarrow> int list" where
  "enum_values SideMode = map hipsolverSideMode_value [HIPSOLVER_SIDE_LEFT, HIPSOLVER_SIDE_RIGHT]"
| "enum_values FillMode =
     map hipsolverFillMode_value [HIPSOLVER_FILL_MODE_UPPER, HIPSOLVER_FILL_MODE_LOWER]"
| "enum_values Operation =
     map hipsolverOperation_value [HIPSOLVER_OP_N, HIPSOLVER_OP_T, HIPSOLVER_OP_C]"
| "enum_values EigMode =
     map hipsolverEigMode_value [HIPSOLVER_EIG_MODE_NOVECTOR, HIPSOLVER_EIG_MODE_VECTOR]"
| "enum_values EigType =
     map hipsolverEigType_value [HIPSOLVER_EIG_TYPE_1, HIPSOLVER_EIG_TYPE_2, HIPSOLVER_EIG_TYPE_3]"

definition in_enumeration :: "enum_kind \<Rightarrow> int \<Rightarrow> bool" where
  "in_enumeration k v = (v \<in> set (enum_values k))"

subsection \<open>The call protocol\<close>

text \<open>
  Modelled from the spec: the translation of a backend's status into
  \<^verbatim>\<open>hipsolverStatus_t\<close>. The header only declares the result type; the
  translating function belongs to the library sources. The spec asks that whatever
  the backend reports be translated into the closed vocabulary, with
  \<^verbatim>\<open>HIPSOLVER_STATUS_UNKNOWN\<close> as the fallback for a report outside the known
  mapping. The known mapping is a parameter: a partial map from backend codes.
\<close>

definition translate_status :: "(int \<rightharpoonup> hipsolverStatus_t) \<Rightarrow> int \<Rightarrow> hipsolverStatus_t" where
  "translate_status known c =
     (case known c of Some s \<Rightarrow> s | None \<Rightarrow> HIPSOLVER_STATUS_UNKNOWN)"

text \<open>
  Modelled from the spec: what a call can see of the world. The header has
  \<^verbatim>\<open>typedef void* hipsolverHandle_t\<close> and passes every result through a
  pointer; the state behind them belongs to the library sources. A handle and an
  address are numbers, 0 the null pointer; \<open>live\<close> holds the handles created and
  not yet destroyed, \<open>mem\<close> the \<^verbatim>\<open>int\<close> cells that have been written.
\<close>

record solver_state =
  live :: "nat set"
  mem :: "nat \<rightharpoonup> int"

text \<open>
  Modelled from the spec: the arguments of a query-phase call, grouped as the
  prototypes group them: the handle, the enum-typed arguments, the
  \<^verbatim>\<open>int\<close> arguments (dimensions, leading dimensions, batch count), the data
  pointers, and the \<^verbatim>\<open>int* lwork\<close> the size is stored through.
\<close>

record query_call =
  q_handle :: nat
  q_modes :: "int list"
  q_dims :: "int list"
  q_buffers :: "nat list"
  q_lwork :: nat

text \<open>
  Modelled from the spec: the body of a query-phase entry point
  \<^verbatim>\<open>R_bufferSize\<close>, of which the header has the prototype only. By the spec a
  null or foreign handle fails with the handle status; an enum-typed argument
  outside its enumeration fails with the invalid-enum status; a shape or mode the
  backend does not support fails with the invalid-value status; otherwise the
  non-negative element count is stored through \<^verbatim>\<open>lwork\<close> and the call
  succeeds. The spec does not order the checks; the handle is checked first here.
  The backend's size function is a parameter (\<open>None\<close> for an unsupported
  configuration); it is given the configuration and never the data pointers.
\<close>

definition query_phase ::
  "(routine \<Rightarrow> precision \<Rightarrow> int list \<Rightarrow> int list \<Rightarrow> nat option) \<Rightarrow>
   routine \<Rightarrow> precision \<Rightarrow> solver_state \<Rightarrow> query_call \<Rightarrow> hipsolverStatus_t \<times> solver_state" where
  "query_phase backend r p st c =
     (if q_handle c = 0 \<or> q_handle c \<notin> live st then (HIPSOLVER_STATUS_HANDLE_IS_NULLPTR, st)
      else if \<not> list_all2 in_enumeration (enum_params r) (q_modes c)
        then (HIPSOLVER_STATUS_INVALID_ENUM, st)
      else case backend r p (q_modes c) (q_dims c) of
             None \<Rightarrow> (HIPSOLVER_STATUS_INVALID_VALUE, st)
           | Some n \<Rightarrow> (HIPSOLVER_STATUS_SUCCESS, st\<lparr>mem := (mem st)(q_lwork c \<mapsto> int n)\<rparr>))"

text \<open>
  Modelled from the spec: \<^verbatim>\<open>hipsolverSpotrf_bufferSize(handle, uplo, n, A, lda,
  lwork)\<close>, the prototype of the header with the body above.
\<close>

definition hipsolverSpotrf_bufferSize ::
  "(routine \<Rightarrow> precision \<Rightarrow> int list \<Rightarrow> int list \<Rightarrow> nat option) \<Rightarrow> solver_state \<Rightarrow>
   nat \<Rightarrow> int \<Rightarrow> int \<Rightarrow> nat \<Rightarrow> int \<Rightarrow> nat \<Rightarrow> hipsolverStatus_t \<times> solver_state" where
  "hipsolverSpotrf_bufferSize backend st handle uplo n A lda lwork =
     query_phase backend Potrf Prec_S st
       \<lparr>q_handle = handle, q_modes = [uplo], q_dims = [n, lda], q_buffers = [A],
        q_lwork = lwork\<rparr>"

section \<open>Properties\<close>

subsection \<open>Enumerations\<close>

lemma hipsolverOperation_UNIV:
  "(UNIV :: hipsolverOperation_t set) = {HIPSOLVER_OP_N, HIPSOLVER_OP_T, HIPSOLVER_OP_C}"
proof -
  have "v \<in> {HIPSOLVER_OP_N, HIPSOLVER_OP_T, HIPSOLVER_OP_C}" for v
    by (cases v) simp_all
  then show ?thesis by blast
qed

lemma hipsolverFillMode_UNIV:
  "(UNIV :: hipsolverFillMode_t set) = {HIPSOLVER_FILL_MODE_UPPER, HIPSOLVER_FILL_MODE_LOWER}"
proof -
  have "v \<in> {HIPSOLVER_FILL_MODE_UPPER, HIPSOLVER_FILL_MODE_LOWER}" for v
    by (cases v) simp_all
  then show ?thesis by blast
qed

lemma hipsolverSideMode_UNIV:
  "(UNIV :: hipsolverSideMode_t set) = {HIPSOLVER_SIDE_LEFT, HIPSOLVER_SIDE_RIGHT}"
proof -
  have "v \<in> {HIPSOLVER_SIDE_LEFT, HIPSOLVER_SIDE_RIGHT}" for v
    by (cases v) simp_all
  then show ?thesis by blast
qed

lemma hipsolverEigMode_UNIV:
  "(UNIV :: hipsolverEigMode_t set) = {HIPSOLVER_EIG_MODE_NOVECTOR, HIPSOLVER_EIG_MODE_VECTOR}"
proof -
  have "v \<in> {HIPSOLVER_EIG_MODE_NOVECTOR, HIPSOLVER_EIG_MODE_VECTOR}" for v
    by (cases v) simp_all
  then show ?thesis by blast
qed

lemma hipsolverEigType_UNIV:
  "(UNIV :: hipsolverEigType_t set) =
     {HIPSOLVER_EIG_TYPE_1, HIPSOLVER_EIG_TYPE_2, HIPSOLVER_EIG_TYPE_3}"
proof -
  have "v \<in> {HIPSOLVER_EIG_TYPE_1, HIPSOLVER_EIG_TYPE_2, HIPSOLVER_EIG_TYPE_3}" for v
    by (cases v) simp_all
  then show ?thesis by blast
qed

text \<open>
  C8. The mode enumerations carry fixed integers, the numbering the header's
  comment takes from cblas: the operation modes are exactly 111, 112, 113, the
  fill modes 121, 122, the side modes 141, 142, the eigen modes 201, 202 and the
  eigen problem types 211, 212, 213; no enumerator has any other value.
\<close>

theorem mode_enum_values:
  "hipsolverOperation_value HIPSOLVER_OP_N = 111 \<and>
   hipsolverOperation_value HIPSOLVER_OP_T = 112 \<and>
   hipsolverOperation_value HIPSOLVER_OP_C = 113 \<and>
   range hipsolverOperation_value = {111, 112, 113} \<and>
   hipsolverFillMode_value HIPSOLVER_FILL_MODE_UPPER = 121 \<and>
   hipsolverFillMode_value HIPSOLVER_FILL_MODE_LOWER = 122 \<and>
   range hipsolverFillMode_value = {121, 122} \<and>
   hipsolverSideMode_value HIPSOLVER_SIDE_LEFT = 141 \<and>
   hipsolverSideMode_value HIPSOLVER_SIDE_RIGHT = 142 \<and>
   range hipsolverSideMode_value = {141, 142} \<and>
   hipsolverEigMode_value HIPSOLVER_EIG_MODE_NOVECTOR = 201 \<and>
   hipsolverEigMode_value HIPSOLVER_EIG_MODE_VECTOR = 202 \<and>
   range hipsolverEigMode_value = {201, 202} \<and>
   hipsolverEigType_value HIPSOLVER_EIG_TYPE_1 = 211 \<and>
   hipsolverEigType_value HIPSOLVER_EIG_TYPE_2 = 212 \<and>
   hipsolverEigType_value HIPSOLVER_EIG_TYPE_3 = 213 \<and>
   range hipsolverEigType_value = {211, 212, 213}"
  by (simp add: hipsolverOperation_UNIV hipsolverFillMode_UNIV hipsolverSideMode_UNIV
      hipsolverEigMode_UNIV hipsolverEigType_UNIV)

subsection \<open>Status codes\<close>

lemma hipsolverStatus_all_UNIV: "set hipsolverStatus_all = UNIV"
proof -
  have "s \<in> set hipsolverStatus_all" for s
    by (cases s) (simp_all add: hipsolverStatus_all_def)
  then show ?thesis by blast
qed

text \<open>
  C1. The status type is closed: its twelve enumerators, numbered 0 to 11 in
  declaration order, are all the values a call can return, so every translated
  status is one of them; and a backend report outside the known mapping is
  translated to \<^verbatim>\<open>HIPSOLVER_STATUS_UNKNOWN\<close> (value 11) whatever the backend's
  own code was.
\<close>

theorem status_closed_unknown_fallback:
  "set hipsolverStatus_all = UNIV \<and> distinct hipsolverStatus_all \<and>
   length hipsolverStatus_all = 12 \<and>
   map hipsolverStatus_value hipsolverStatus_all = [0, 1, 2, 3, 4, 5, 6, 7, 8, 9, 10, 11] \<and>
   translate_status known c \<in> set hipsolverStatus_all \<and>
   (known c = None \<longrightarrow>
      translate_status known c = HIPSOLVER_STATUS_UNKNOWN \<and>
      hipsolverStatus_value (translate_status known c) = 11)"
proof -
  have "distinct hipsolverStatus_all" "length hipsolverStatus_all = 12"
    "map hipsolverStatus_value hipsolverStatus_all = [0, 1, 2, 3, 4, 5, 6, 7, 8, 9, 10, 11]"
    by (simp_all add: hipsolverStatus_all_def)
  moreover have "known c = None \<Longrightarrow> translate_status known c = HIPSOLVER_STATUS_UNKNOWN"
    by (simp add: translate_status_def)
  ultimately show ?thesis by (simp add: hipsolverStatus_all_UNIV)
qed

text \<open>
  C1, at a concrete input: with a mapping that knows the backend codes 0 and 3
  only, the backend code 77 is translated to \<^verbatim>\<open>HIPSOLVER_STATUS_UNKNOWN\<close>, not
  passed on as 77, while the known code 3 is translated as the mapping says.
\<close>

theorem status_closed_unknown_fallback_witness:
  "[0 \<mapsto> HIPSOLVER_STATUS_SUCCESS, 3 \<mapsto> HIPSOLVER_STATUS_INVALID_VALUE] (77::int) = None \<and>
   translate_status [0 \<mapsto> HIPSOLVER_STATUS_SUCCESS, 3 \<mapsto> HIPSOLVER_STATUS_INVALID_VALUE] 77
     = HIPSOLVER_STATUS_UNKNOWN \<and>
   hipsolverStatus_value
     (translate_status [0 \<mapsto> HIPSOLVER_STATUS_SUCCESS, 3 \<mapsto> HIPSOLVER_STATUS_INVALID_VALUE] 77)
     = 11 \<and>
   translate_status [0 \<mapsto> HIPSOLVER_STATUS_SUCCESS, 3 \<mapsto> HIPSOLVER_STATUS_INVALID_VALUE] 3
     = HIPSOLVER_STATUS_INVALID_VALUE"
  using status_closed_unknown_fallback
    [of "[0 \<mapsto> HIPSOLVER_STATUS_SUCCESS, 3 \<mapsto> HIPSOLVER_STATUS_INVALID_VALUE]" 77]
  by (simp add: translate_status_def)

subsection \<open>Query phase\<close>

text \<open>
  C6. A query-phase call of any routine with a valid handle and an enum-typed
  argument whose value is not an enumerator of its enumeration returns
  \<^verbatim>\<open>HIPSOLVER_STATUS_INVALID_ENUM\<close> and leaves the state as it was: nothing is
  stored through \<^verbatim>\<open>lwork\<close>.
\<close>

theorem query_invalid_enum_no_write:
  assumes "q_handle c \<noteq> 0" and "q_handle c \<in> live st"
    and "length (q_modes c) = length (enum_params r)"
    and "i < length (q_modes c)"
    and "\<not> in_enumeration (enum_params r ! i) (q_modes c ! i)"
  shows "query_phase backend r p st c = (HIPSOLVER_STATUS_INVALID_ENUM, st)"
proof -
  have "\<not> list_all2 in_enumeration (enum_params r) (q_modes c)"
    using assms(3-5) by (auto simp: list_all2_conv_all_nth)
  then show ?thesis using assms(1,2) by (simp add: query_phase_def)
qed

text \<open>
  C6, at a concrete input: \<^verbatim>\<open>hipsolverSpotrf_bufferSize\<close> with the fill mode
  123 on a live handle returns the invalid-enum status and the cell at
  \<^verbatim>\<open>lwork\<close> stays unwritten, while the same call with
  \<^verbatim>\<open>HIPSOLVER_FILL_MODE_UPPER\<close> (121) succeeds.
\<close>

theorem query_invalid_enum_no_write_witness:
  "hipsolverSpotrf_bufferSize (\<lambda>r p ms ds. Some 0) \<lparr>live = {1}, mem = Map.empty\<rparr>
     1 123 3 4096 3 8192
     = (HIPSOLVER_STATUS_INVALID_ENUM, \<lparr>live = {1}, mem = Map.empty\<rparr>) \<and>
   mem (snd (hipsolverSpotrf_bufferSize (\<lambda>r p ms ds. Some 0) \<lparr>live = {1}, mem = Map.empty\<rparr>
               1 123 3 4096 3 8192)) 8192 = None \<and>
   fst (hipsolverSpotrf_bufferSize (\<lambda>r p ms ds. Some 0) \<lparr>live = {1}, mem = Map.empty\<rparr>
               1 121 3 4096 3 8192) = HIPSOLVER_STATUS_SUCCESS"
proof -
  have "query_phase (\<lambda>r p ms ds. Some 0) Potrf Prec_S \<lparr>live = {1}, mem = Map.empty\<rparr>
          \<lparr>q_handle = 1, q_modes = [123], q_dims = [3, 3], q_buffers = [4096], q_lwork = 8192\<rparr>
        = (HIPSOLVER_STATUS_INVALID_ENUM, \<lparr>live = {1}, mem = Map.empty\<rparr>)"
    by (rule query_invalid_enum_no_write [where i = 0]) (simp_all add: in_enumeration_def)
  then show ?thesis
    by (simp add: hipsolverSpotrf_bufferSize_def) (simp add: query_phase_def in_enumeration_def)
qed

subsection \<open>Layout of the complex value types\<close>

lemma align_up_dvd:
  assumes "0 < a" "a dvd n"
  shows "align_up a n = n"
proof -
  from assms(2) obtain k where k: "n = k * a" by (metis dvd_def mult.commute)
  define b where "b = a - 1"
  have b: "b < a" using assms(1) by (simp add: b_def)
  have "n + a - 1 = b + k * a" using assms(1) by (simp add: k b_def)
  moreover have "(b + k * a) div a = k + b div a"
    by (rule div_mult_self1) (use assms(1) in simp)
  ultimately have "(n + a - 1) div a = k" using b by simp
  then show ?thesis by (simp add: align_up_def k)
qed

lemma complex_struct_members:
  "map m_name (members (complex_struct t cpp)) = [''x'', ''y'']"
  "map m_type (members (complex_struct t cpp)) = [t, t]"
  by (simp_all add: complex_struct_def split: option.splits)

lemma complex_struct_layout:
  assumes "0 < alignof_scalar a t" "alignof_scalar a t dvd sizeof_scalar a t"
  shows "member_offsets a (complex_struct t cpp) = [0, sizeof_scalar a t]"
    and "sizeof_struct a (complex_struct t cpp) = 2 * sizeof_scalar a t"
    and "padding_bytes a (complex_struct t cpp) = 0"
  using assms
  by (auto simp: member_offsets_def sizeof_struct_def padding_bytes_def alignof_struct_def
      complex_struct_def align_up_dvd Let_def split: option.splits)

lemma complex_struct_standard_layout: "is_standard_layout (complex_struct t cpp)"
  by (simp add: is_standard_layout_def complex_struct_def split: option.splits)

lemma complex_struct_trivial:
  "is_trivial (complex_struct t cpp) \<longleftrightarrow> cpp = None \<or> 201103 \<le> cplusplus_value cpp"
  by (auto simp: is_trivial_def has_trivial_default_ctor_def is_default_ctor_def
      complex_struct_def cplusplus_value_def split: option.splits)

lemma complex_accessors:
  "real_get (complex_ctor r i) = r" "imag_get (complex_ctor r i) = i"
  "real_get (real_set c r) = r" "imag_get (real_set c r) = imag_get c"
  "imag_get (imag_set c i) = i" "real_get (imag_set c i) = real_get c"
  by (simp_all add: real_get_def imag_get_def real_set_def imag_set_def complex_ctor_def)

lemma complex_ctor1_parts: "real_get (complex_ctor1 r) = r" "imag_get (complex_ctor1 r) = 0"
  by (simp_all add: complex_ctor1_def complex_accessors)

text \<open>
  C7, as the code has it. On every target whose scalar sizes are positive
  multiples of their alignments, and in each of the header's three
  configurations, \<^verbatim>\<open>hipsolverComplex\<close> and \<^verbatim>\<open>hipsolverDoubleComplex\<close>
  have exactly the two members \<open>x\<close> and \<open>y\<close> of their scalar type, at offsets 0
  and the scalar's size, no padding and a size of twice the scalar, and are
  standard-layout; \<^verbatim>\<open>real()\<close> reads the first and \<^verbatim>\<open>imag()\<close> the second
  constructor argument. They are trivial exactly when the header is compiled as C
  or as C++11 or later.
\<close>

theorem complex_types_layout:
  assumes "abi_ok a"
  shows "map m_name (members (hipsolverComplex_decl cpp)) = [''x'', ''y''] \<and>
         map m_type (members (hipsolverComplex_decl cpp)) = [Float, Float] \<and>
         member_offsets a (hipsolverComplex_decl cpp) = [0, sizeof_float a] \<and>
         sizeof_struct a (hipsolverComplex_decl cpp) = 2 * sizeof_float a \<and>
         padding_bytes a (hipsolverComplex_decl cpp) = 0 \<and>
         is_standard_layout (hipsolverComplex_decl cpp) \<and>
         (is_trivial (hipsolverComplex_decl cpp) \<longleftrightarrow>
            cpp = None \<or> 201103 \<le> cplusplus_value cpp) \<and>
         map m_name (members (hipsolverDoubleComplex_decl cpp)) = [''x'', ''y''] \<and>
         map m_type (members (hipsolverDoubleComplex_decl cpp)) = [Double, Double] \<and>
         member_offsets a (hipsolverDoubleComplex_decl cpp) = [0, sizeof_double a] \<and>
         sizeof_struct a (hipsolverDoubleComplex_decl cpp) = 2 * sizeof_double a \<and>
         padding_bytes a (hipsolverDoubleComplex_decl cpp) = 0 \<and>
         is_standard_layout (hipsolverDoubleComplex_decl cpp) \<and>
         (is_trivial (hipsolverDoubleComplex_decl cpp) \<longleftrightarrow>
            cpp = None \<or> 201103 \<le> cplusplus_value cpp) \<and>
         real_get (complex_ctor r i) = r \<and> imag_get (complex_ctor r i) = i"
proof -
  have f: "0 < alignof_scalar a Float" "alignof_scalar a Float dvd sizeof_scalar a Float"
    and d: "0 < alignof_scalar a Double" "alignof_scalar a Double dvd sizeof_scalar a Double"
    using assms by (simp_all add: abi_ok_def)
  show ?thesis
    unfolding hipsolverComplex_decl_def hipsolverDoubleComplex_decl_def
    using complex_struct_layout [OF f, of cpp] complex_struct_layout [OF d, of cpp]
    by (simp add: complex_struct_members complex_struct_standard_layout complex_struct_trivial
        complex_accessors)
qed

text \<open>
  C7, at a concrete input: with a 4-byte \<^verbatim>\<open>float\<close> and an 8-byte
  \<^verbatim>\<open>double\<close>, each aligned to its size, the two types have sizes 8 and 16
  without padding, and are standard-layout and trivial under C++11 and under C.
\<close>

theorem complex_types_layout_witness:
  "abi_ok \<lparr>sizeof_float = 4, alignof_float = 4, sizeof_double = 8, alignof_double = 8\<rparr> \<and>
   sizeof_struct \<lparr>sizeof_float = 4, alignof_float = 4, sizeof_double = 8, alignof_double = 8\<rparr>
     (hipsolverComplex_decl (Some 201103)) = 8 \<and>
   sizeof_struct \<lparr>sizeof_float = 4, alignof_float = 4, sizeof_double = 8, alignof_double = 8\<rparr>
     (hipsolverDoubleComplex_decl (Some 201103)) = 16 \<and>
   padding_bytes \<lparr>sizeof_float = 4, alignof_float = 4, sizeof_double = 8, alignof_double = 8\<rparr>
     (hipsolverDoubleComplex_decl (Some 201103)) = 0 \<and>
   is_standard_layout (hipsolverComplex_decl (Some 201103)) \<and>
   is_trivial (hipsolverComplex_decl (Some 201103)) \<and>
   is_trivial (hipsolverDoubleComplex_decl None) \<and>
   real_get (complex_ctor (12::int) (-51)) = 12 \<and> imag_get (complex_ctor (12::int) (-51)) = -51"
proof -
  have ok: "abi_ok \<lparr>sizeof_float = 4, alignof_float = 4, sizeof_double = 8, alignof_double = 8\<rparr>"
    by (simp add: abi_ok_def)
  show ?thesis
    using ok
      complex_types_layout [OF ok, where cpp = "Some 201103" and r = "12::int" and i = "-51"]
      complex_types_layout [OF ok, where cpp = None and r = "12::int" and i = "-51"]
    by (simp add: cplusplus_value_def)
qed

text \<open>
  C7 as stated fails in one configuration: in a C++ translation unit older than
  C++11 (\<^verbatim>\<open>__cplusplus\<close> = 199711) the default constructor is the user-provided
  \<^verbatim>\<open>hipsolverComplex() {}\<close>, so neither type is trivial.
\<close>

theorem complex_not_trivial_before_cxx11:
  "\<not> is_trivial (hipsolverComplex_decl (Some 199711)) \<and>
   \<not> is_trivial (hipsolverDoubleComplex_decl (Some 199711))"
  by (simp add: is_trivial_def has_trivial_default_ctor_def is_default_ctor_def
      hipsolverComplex_decl_def hipsolverDoubleComplex_decl_def complex_struct_def)

text \<open>
  C10. The size of \<^verbatim>\<open>hipsolverDoubleComplex\<close> is twice the size of
  \<^verbatim>\<open>hipsolverComplex\<close> exactly on the targets where \<^verbatim>\<open>double\<close> is twice
  as large as \<^verbatim>\<open>float\<close>, and the header enforces it at compile time: a
  C++11 translation unit passes the header's static assertions if and only if the
  relation holds.
\<close>

theorem double_complex_size_enforced:
  assumes "abi_ok a"
  shows "(sizeof_struct a (hipsolverDoubleComplex_decl cpp) =
            sizeof_struct a (hipsolverComplex_decl cpp) * 2
          \<longleftrightarrow> sizeof_double a = sizeof_float a * 2) \<and>
         (201103 \<le> cplusplus_value cpp \<longrightarrow>
            (static_asserts a cpp \<longleftrightarrow>
               sizeof_struct a (hipsolverDoubleComplex_decl cpp) =
                 sizeof_struct a (hipsolverComplex_decl cpp) * 2))"
proof -
  have f: "0 < alignof_scalar a Float" "alignof_scalar a Float dvd sizeof_scalar a Float"
    and d: "0 < alignof_scalar a Double" "alignof_scalar a Double dvd sizeof_scalar a Double"
    using assms by (simp_all add: abi_ok_def)
  have sf: "sizeof_struct a (hipsolverComplex_decl cpp) = 2 * sizeof_float a"
    using complex_struct_layout(2) [OF f, of cpp] by (simp add: hipsolverComplex_decl_def)
  have sd: "sizeof_struct a (hipsolverDoubleComplex_decl cpp) = 2 * sizeof_double a"
    using complex_struct_layout(2) [OF d, of cpp] by (simp add: hipsolverDoubleComplex_decl_def)
  have rel: "sizeof_struct a (hipsolverDoubleComplex_decl cpp) =
               sizeof_struct a (hipsolverComplex_decl cpp) * 2
             \<longleftrightarrow> sizeof_double a = sizeof_float a * 2"
    by (simp add: sf sd mult.commute)
  have "static_asserts a cpp \<longleftrightarrow> sizeof_double a = sizeof_float a * 2"
    if "201103 \<le> cplusplus_value cpp"
    using that
    by (simp add: static_asserts_def sf sd mult.commute)
      (simp add: hipsolverComplex_decl_def hipsolverDoubleComplex_decl_def
        complex_struct_standard_layout complex_struct_trivial)
  with rel show ?thesis by blast
qed

text \<open>
  C10, at a concrete input: with a 4-byte \<^verbatim>\<open>float\<close> and an 8-byte
  \<^verbatim>\<open>double\<close> under C++11 the static assertions pass and the sizes are 16 and
  twice 8.
\<close>

theorem double_complex_size_enforced_witness:
  "abi_ok \<lparr>sizeof_float = 4, alignof_float = 4, sizeof_double = 8, alignof_double = 8\<rparr> \<and>
   201103 \<le> cplusplus_value (Some 201103) \<and>
   static_asserts \<lparr>sizeof_float = 4, alignof_float = 4, sizeof_double = 8, alignof_double = 8\<rparr>
     (Some 201103) \<and>
   sizeof_struct \<lparr>sizeof_float = 4, alignof_float = 4, sizeof_double = 8, alignof_double = 8\<rparr>
     (hipsolverDoubleComplex_decl (Some 201103)) =
   sizeof_struct \<lparr>sizeof_float = 4, alignof_float = 4, sizeof_double = 8, alignof_double = 8\<rparr>
     (hipsolverComplex_decl (Some 201103)) * 2"
proof -
  have ok: "abi_ok \<lparr>sizeof_float = 4, alignof_float = 4, sizeof_double = 8, alignof_double = 8\<rparr>"
    by (simp add: abi_ok_def)
  show ?thesis
    using ok double_complex_size_enforced [OF ok, of "Some 201103"]
    by (simp add: cplusplus_value_def)
qed

end
